theory Spec2Isabelle
  imports Complex_Main
begin

unbundle bit_operations_syntax

section \<open>The value model (src/value.ts)\<close>

text \<open>
  The enum \<open>ValueType\<close> with its numeric values. The numeric value matters: the join keeps its
  buckets in a plain JS object keyed by it, and \<open>Object.entries\<close> lists integer keys in
  ascending order.
\<close>

datatype ValueType =
  EXCEPTION | ANY | UNDEFINED | NULL | BOOLEAN | NUMBER | STRING | ARRAY | OBJECT | FUNCTION
  | SYMBOL

fun typeCode :: "ValueType \<Rightarrow> nat" where
  "typeCode EXCEPTION = 1"
| "typeCode ANY = 2"
| "typeCode UNDEFINED = 3"
| "typeCode NULL = 4"
| "typeCode BOOLEAN = 5"
| "typeCode NUMBER = 6"
| "typeCode STRING = 7"
| "typeCode ARRAY = 8"
| "typeCode OBJECT = 9"
| "typeCode FUNCTION = 10"
| "typeCode SYMBOL = 11"

text \<open>
  A JS number, as far as the program looks at one: it only builds numbers from literals and
  compares them with \<open>===\<close>. \<open>NaN\<close> is the one number not equal to itself; the two zeros
  are equal under \<open>===\<close> and are both \<open>Finite 0\<close>.
\<close>

datatype number = NaN | PosInfinity | NegInfinity | Finite rat

text \<open>
  JS objects are compared by reference. A reference is a natural number; an object that
  is read as well as compared (the \<open>props\<close> record) carries its reference next to its
  contents.
\<close>

type_synonym ref = nat

text \<open>
  A native handler is a JS closure \<open>(args: Value[]) => Value\<close>, compared by reference.
  A constraint holds the reference of its handler; what the closure does when called is
  kept in the state of a run (\<open>handlers\<close> below), so that a Value can hold any handler.
  \<open>ConsoleLog\<close> is the reference of the one closure the program itself creates, the arrow
  function of \<open>createGlobalScope\<close>.
\<close>

type_synonym Handler = ref

definition ConsoleLog :: Handler where
  "ConsoleLog = 0"

text \<open>
  The union \<open>ValueConstraint\<close>, one constructor per member, an optional field being
  \<open>None\<close> when the key is absent. \<open>CObject\<close> holds \<open>props\<close>: the reference of the
  record and its entries. \<open>CFunction\<close> holds \<open>hasSideEffects\<close>, \<open>handler\<close> and
  \<open>node\<close> (a reference to a syntax node).
\<close>

datatype ValueConstraint =
    CAny
  | CUndefined
  | CNull
  | CBoolean "bool option"
  | CNumber "number option"
  | CObject "(ref \<times> (string \<times> Value) list) option"
  | CFunction "bool option" "Handler option" "ref option"
and Value = Value (constraints: "ValueConstraint list")

fun type_of :: "ValueConstraint \<Rightarrow> ValueType" where
  "type_of CAny = ANY"
| "type_of CUndefined = UNDEFINED"
| "type_of CNull = NULL"
| "type_of (CBoolean _) = BOOLEAN"
| "type_of (CNumber _) = NUMBER"
| "type_of (CObject _) = OBJECT"
| "type_of (CFunction _ _ _) = FUNCTION"

subsection \<open>Own keys of a constraint and strict equality\<close>

text \<open>What a field of a constraint object can hold, as \<open>===\<close> sees it.\<close>

datatype FieldValue =
    FUndefined
  | FBoolean bool
  | FNumber number
  | FProps ref
  | FHandler Handler
  | FNode ref

fun strictEquals :: "FieldValue \<Rightarrow> FieldValue \<Rightarrow> bool" where
  "strictEquals FUndefined FUndefined = True"
| "strictEquals (FBoolean a) (FBoolean b) = (a = b)"
| "strictEquals (FNumber a) (FNumber b) = (a \<noteq> NaN \<and> a = b)"
| "strictEquals (FProps a) (FProps b) = (a = b)"
| "strictEquals (FHandler a) (FHandler b) = (a = b)"
| "strictEquals (FNode a) (FNode b) = (a = b)"
| "strictEquals _ _ = False"

fun optionalField :: "string \<Rightarrow> 'a option \<Rightarrow> ('a \<Rightarrow> FieldValue) \<Rightarrow> (string \<times> FieldValue) list" where
  "optionalField key None f = []"
| "optionalField key (Some x) f = [(key, f x)]"

text \<open>
  \<open>Object.entries(result).filter(([key]) => key !== "type")\<close>: the own keys of a
  constraint other than \<open>type\<close>, with their values.
\<close>

fun entries :: "ValueConstraint \<Rightarrow> (string \<times> FieldValue) list" where
  "entries CAny = []"
| "entries CUndefined = []"
| "entries CNull = []"
| "entries (CBoolean v) = optionalField ''value'' v FBoolean"
| "entries (CNumber v) = optionalField ''value'' v FNumber"
| "entries (CObject p) = optionalField ''props'' p (\<lambda>pr. FProps (fst pr))"
| "entries (CFunction se h n) =
     optionalField ''hasSideEffects'' se FBoolean @ optionalField ''handler'' h FHandler
     @ optionalField ''node'' n FNode"

text \<open>\<open>Object.keys(c).length\<close>: the key \<open>type\<close> and the other own keys.\<close>

definition keysLength :: "ValueConstraint \<Rightarrow> nat" where
  "keysLength c = Suc (length (entries c))"

text \<open>\<open>c[key]\<close> for a key other than \<open>type\<close>: \<open>undefined\<close> when the key is absent.\<close>

definition getField :: "ValueConstraint \<Rightarrow> string \<Rightarrow> FieldValue" where
  "getField c key = (case map_of (entries c) key of None \<Rightarrow> FUndefined | Some v \<Rightarrow> v)"

section \<open>The join: applyToValue\<close>

text \<open>
  A slot of \<open>constraintsByType\<close>: \<open>true\<close> (generalized) or the array of constraints
  recorded for the type. A type with no slot yet maps to \<open>None\<close>.
\<close>

datatype Bucket = Generalized | Specifics "ValueConstraint list"

type_synonym ConstraintsByType = "ValueType \<Rightarrow> Bucket option"

text \<open>
  The test of \<open>existing.some\<close>: \<open>c2\<close> has as many keys as the result and holds, under
  each key of the result, a strictly equal value.
\<close>

definition sameConstraint :: "(string \<times> FieldValue) list \<Rightarrow> ValueConstraint \<Rightarrow> bool" where
  "sameConstraint es c2 \<longleftrightarrow>
     keysLength c2 = length es + 1 \<and> list_all (\<lambda>(key, v). strictEquals (getField c2 key) v) es"

text \<open>The body of the inner loop for a result whose type is not \<open>ANY\<close>.\<close>

definition addResult :: "ConstraintsByType \<Rightarrow> ValueConstraint \<Rightarrow> ConstraintsByType" where
  "addResult tbl result =
     (case tbl (type_of result) of
        Some existing \<Rightarrow>
          (case existing of
             Generalized \<Rightarrow> tbl
           | Specifics cs \<Rightarrow>
               if length (entries result) = 0 then tbl(type_of result \<mapsto> Generalized)
               else if \<not> list_ex (sameConstraint (entries result)) cs
                 then tbl(type_of result \<mapsto> Specifics (cs @ [result]))
               else tbl)
      | None \<Rightarrow> tbl(type_of result \<mapsto> Specifics [result]))"

text \<open>
  The inner loop over the results of one callback call: \<open>Inl result\<close> is the early
  \<open>return new Value([result])\<close> at a result of type \<open>ANY\<close>, \<open>Inr\<close> the table after the
  loop.
\<close>

fun addResults :: "ConstraintsByType \<Rightarrow> ValueConstraint list \<Rightarrow> ValueConstraint + ConstraintsByType" where
  "addResults tbl [] = Inr tbl"
| "addResults tbl (result # rest) =
     (if type_of result = ANY then Inl result else addResults (addResult tbl result) rest)"

text \<open>
  A callback may throw a \<open>CompileError\<close> (type \<open>'e\<close> here) and may change state of the
  caller (type \<open>'s\<close>: the call expression pushes to \<open>sideEffects\<close>). The outer loop calls it
  on each constraint in turn, threading the state; \<open>Inr (Inl result)\<close> is the early
  return.
\<close>

type_synonym ('e, 's) Callback = "ValueConstraint \<Rightarrow> 's \<Rightarrow> ('e + ValueConstraint list) \<times> 's"

fun applyLoop ::
  "('e, 's) Callback \<Rightarrow> ConstraintsByType \<Rightarrow> ValueConstraint list \<Rightarrow> 's
     \<Rightarrow> ('e + (ValueConstraint + ConstraintsByType)) \<times> 's" where
  "applyLoop callback tbl [] s = (Inr (Inr tbl), s)"
| "applyLoop callback tbl (c # cs) s =
     (case callback c s of
        (Inl err, s') \<Rightarrow> (Inl err, s')
      | (Inr results, s') \<Rightarrow>
          (case addResults tbl results of
             Inl result \<Rightarrow> (Inr (Inl result), s')
           | Inr tbl' \<Rightarrow> applyLoop callback tbl' cs s'))"

text \<open>
  \<open>Object.entries(constraintsByType)\<close> lists the slots by ascending type code.
  \<open>{ type: +type }\<close> is the payload-free constraint of a type; the union has a member for
  the types below only, and only their slots are ever written.
\<close>

definition valueTypes :: "ValueType list" where
  "valueTypes =
     [EXCEPTION, ANY, UNDEFINED, NULL, BOOLEAN, NUMBER, STRING, ARRAY, OBJECT, FUNCTION, SYMBOL]"

fun generic :: "ValueType \<Rightarrow> ValueConstraint list" where
  "generic ANY = [CAny]"
| "generic UNDEFINED = [CUndefined]"
| "generic NULL = [CNull]"
| "generic BOOLEAN = [CBoolean None]"
| "generic NUMBER = [CNumber None]"
| "generic OBJECT = [CObject None]"
| "generic FUNCTION = [CFunction None None None]"
| "generic _ = []"

definition slotConstraints :: "ConstraintsByType \<Rightarrow> ValueType \<Rightarrow> ValueConstraint list" where
  "slotConstraints tbl t =
     (case tbl t of None \<Rightarrow> [] | Some Generalized \<Rightarrow> generic t | Some (Specifics cs) \<Rightarrow> cs)"

definition rebuild :: "ConstraintsByType \<Rightarrow> Value" where
  "rebuild tbl = Value (concat (map (slotConstraints tbl) valueTypes))"

definition applyToValue ::
  "Value \<Rightarrow> ('e, 's) Callback \<Rightarrow> 's \<Rightarrow> ('e + Value) \<times> 's" where
  "applyToValue v callback s =
     (case applyLoop callback Map.empty (constraints v) s of
        (Inl err, s') \<Rightarrow> (Inl err, s')
      | (Inr (Inl result), s') \<Rightarrow> (Inr (Value [result]), s')
      | (Inr (Inr tbl), s') \<Rightarrow> (Inr (rebuild tbl), s'))"

text \<open>The identity transform of the join: each constraint maps to itself, nothing is thrown.\<close>

definition identityCallback :: "('e, 's) Callback" where
  "identityCallback c s = (Inr [c], s)"

section \<open>The scope chain (class Scope)\<close>

text \<open>
  A scope holds its parent, if any, and its bindings. The chain is built by the constructor
  alone, so it is finite and acyclic, as the datatype is. The methods that mutate a scope
  return the updated scope, ancestors included.
\<close>

datatype Scope = Scope (parent: "Scope option") (bindings: "string \<rightharpoonup> Value")

text \<open>A \<open>Value\<close> is an object and so truthy: \<open>if (value)\<close> is the test that the key is bound.\<close>

fun lookupVar :: "Scope \<Rightarrow> string \<Rightarrow> Value option" where
  "lookupVar (Scope None b) name = b name"
| "lookupVar (Scope (Some p) b) name =
     (case b name of Some v \<Rightarrow> Some v | None \<Rightarrow> lookupVar p name)"

fun setVar :: "Scope \<Rightarrow> string \<Rightarrow> Value \<Rightarrow> Scope" where
  "setVar (Scope None b) name v = Scope None (b(name \<mapsto> v))"
| "setVar (Scope (Some p) b) name v =
     (if b name = None then Scope (Some (setVar p name v)) b
      else Scope (Some p) (b(name \<mapsto> v)))"

text \<open>\<open>scope.bindings.set(name, value)\<close>, the direct insertion of a declaration.\<close>

definition bindingsSet :: "Scope \<Rightarrow> string \<Rightarrow> Value \<Rightarrow> Scope" where
  "bindingsSet sc name v = Scope (parent sc) ((bindings sc)(name \<mapsto> v))"

section \<open>Syntax nodes\<close>

text \<open>
  The tree comes from the TypeScript parser. A node is modelled as far as \<open>execNode\<close>
  looks at it: its kind and the children and fields read. \<open>NumericLiteral\<close> holds the number
  \<open>+node.text\<close>; \<open>Identifier\<close> and the name of a property access hold \<open>text\<close>;
  \<open>VariableStatement\<close> holds \<open>declarationList.flags\<close> and the declarations;
  the name of a declaration is an identifier or a binding pattern, and \<open>BindingNameNode\<close>
  is that name as a node (the destructuring error holds it); \<open>OtherNode\<close> is a node of any
  other kind, with its \<open>SyntaxKind\<close>.
\<close>

datatype BinaryOperator = FirstAssignment | OtherOperator nat

datatype BindingName = BindingIdentifier string | ArrayBindingPattern | ObjectBindingPattern

datatype Node =
    SourceFile "Node list"
  | VariableStatement nat "VariableDeclaration list"
  | CallExpression Node "Node list"
  | ExpressionStatement Node
  | BinaryExpression Node BinaryOperator Node
  | PropertyAccessExpression Node string
  | NumericLiteral number
  | Identifier string
  | NullKeyword
  | TrueKeyword
  | FalseKeyword
  | BindingNameNode BindingName
  | OtherNode nat
and VariableDeclaration = VariableDeclaration BindingName "Node option"

text \<open>
  \<open>escapedText\<close> of an identifier whose \<open>text\<close> is given (\<open>escapeLeadingUnderscores\<close>
  of the TypeScript library): a name starting with two underscores gets a third.
\<close>

definition escapeLeadingUnderscores :: "string \<Rightarrow> string" where
  "escapeLeadingUnderscores s =
     (if length s \<ge> 2 \<and> s ! 0 = CHR ''_'' \<and> s ! 1 = CHR ''_'' then CHR ''_'' # s else s)"

text \<open>\<open>ts.NodeFlags.Let\<close> and \<open>ts.NodeFlags.Const\<close>.\<close>

definition NodeFlags_Let :: nat where
  "NodeFlags_Let = 1"

definition NodeFlags_Const :: nat where
  "NodeFlags_Const = 2"

section \<open>Errors, results and the state of a run\<close>

datatype CompileError = CompileError (message: string) (node: "Node option")

definition unsupported :: "Node \<Rightarrow> CompileError" where
  "unsupported n = CompileError ''Unsupported JS code encountered'' (Some n)"

text \<open>
  The interface \<open>ExecResult\<close>; its fields \<open>value\<close> and \<open>identifier\<close> are \<open>val\<close>
  and \<open>identifierName\<close> here.
\<close>

record ExecResult =
  val :: "Value option"
  exception :: "Value option"
  identifierName :: "string option"

definition emptyResult :: ExecResult where
  "emptyResult = \<lparr>val = None, exception = None, identifierName = None\<rparr>"

definition valueResult :: "Value \<Rightarrow> ExecResult" where
  "valueResult v = \<lparr>val = Some v, exception = None, identifierName = None\<rparr>"

definition exceptionResult :: "Value \<Rightarrow> ExecResult" where
  "exceptionResult v = \<lparr>val = None, exception = Some v, identifierName = None\<rparr>"

text \<open>
  A call of a handler returns a Value or throws; the thrown value is taken to be a
  \<open>CompileError\<close>, the one error that \<open>compile\<close> catches. A handler reads its arguments
  only. \<open>consoleLogHandler\<close> is \<open>() => new Value([{ type: ValueType.UNDEFINED }])\<close>.
\<close>

type_synonym Closure = "Value list \<Rightarrow> CompileError + Value"

definition consoleLogHandler :: Closure where
  "consoleLogHandler args = Inr (Value [CUndefined])"

text \<open>
  The state of a run: the scope \<open>execNode\<close> is given, the list \<open>sideEffects\<close> of
  \<open>compile\<close> with one entry \<open>{ args }\<close> per recorded call, and the closure behind each
  handler reference. \<open>execNode\<close> changes the first two.
\<close>

record State =
  scope :: Scope
  sideEffects :: "Value list list"
  handlers :: "Handler \<Rightarrow> Closure"

text \<open>
  A diagnostic as \<open>addDiagnostic\<close> builds it. \<open>start\<close> and \<open>length\<close> are the span of
  the node, which stands for them; the category is the default, \<open>Error\<close>.
\<close>

datatype DiagnosticCategory = Warning | Error | Suggestion | Message

record Diagnostic =
  category :: DiagnosticCategory
  code :: string
  messageText :: string
  spanOf :: "Node option"

section \<open>The evaluator: execNode\<close>

text \<open>
  The callback of the call expression, given the closures \<open>hs\<close> of the run; its state is
  the list \<open>sideEffects\<close>. With a handler, the entry is pushed before the handler is
  called, so it stays when the handler throws. Without a handler, the test
  \<open>if (constraint.node)\<close> has an empty body (a TODO), and both of its branches reach
  \<open>return [{ type: ValueType.ANY }]\<close>.
\<close>

definition callCallback ::
  "(Handler \<Rightarrow> Closure) \<Rightarrow> Node \<Rightarrow> Value list \<Rightarrow> (CompileError, Value list list) Callback" where
  "callCallback hs n args c effects =
     (case c of
        CFunction hasSideEffects handler fnode \<Rightarrow>
          (case handler of
             Some h \<Rightarrow>
               (let effects' = (if hasSideEffects = Some True then effects @ [args] else effects)
                in case hs h args of
                     Inl err \<Rightarrow> (Inl err, effects')
                   | Inr v \<Rightarrow> (Inr (constraints v), effects'))
           | None \<Rightarrow> (Inr [CAny], effects))
      | _ \<Rightarrow> (Inl (CompileError ''Called value may not be a function'' (Some n)), effects))"

text \<open>The callback of the property access, which leaves the state alone.\<close>

definition propertyCallback :: "Node \<Rightarrow> string \<Rightarrow> (CompileError, 's) Callback" where
  "propertyCallback n name c s =
     (case c of
        CObject props \<Rightarrow>
          (case props of
             None \<Rightarrow> (Inr [CAny], s)
           | Some pr \<Rightarrow>
               (case map_of (snd pr) name of
                  Some v \<Rightarrow> (Inr (constraints v), s)
                | None \<Rightarrow> (Inr [], s)))
      | _ \<Rightarrow> (Inl (CompileError ''Only objects support property access'' (Some n)), s))"

text \<open>
  \<open>execNode\<close> returns \<open>Inl\<close> for a thrown \<open>CompileError\<close> and \<open>Inr\<close> for a returned
  result, with the state reached in both cases. Its loops are the three functions beside it:
  \<^item> \<open>execStatements\<close>, the loop of the source file, which breaks at a result with an
    exception;
  \<^item> \<open>execDeclarations\<close>, the loop of the variable statement: \<open>Some result\<close> is its
    \<open>return result\<close>, \<open>None\<close> the end of the loop;
  \<^item> \<open>execArguments\<close>, the loop over the arguments of a call: \<open>Inl result\<close> is its
    \<open>return result\<close>, \<open>Inr args\<close> the end of the loop.
\<close>

fun execNode :: "Node \<Rightarrow> State \<Rightarrow> (CompileError + ExecResult) \<times> State"
and execStatements :: "Node list \<Rightarrow> State \<Rightarrow> (CompileError + unit) \<times> State"
and execDeclarations ::
  "VariableDeclaration list \<Rightarrow> State \<Rightarrow> (CompileError + ExecResult option) \<times> State"
and execArguments ::
  "Node list \<Rightarrow> Value list \<Rightarrow> State \<Rightarrow> (CompileError + (ExecResult + Value list)) \<times> State"
where
  "execNode (SourceFile statements) st =
     (case execStatements statements st of
        (Inl err, st') \<Rightarrow> (Inl err, st')
      | (Inr _, st') \<Rightarrow> (Inr emptyResult, st'))"
| "execNode (VariableStatement flags declarations) st =
     (let isLet = (flags AND NodeFlags_Let \<noteq> 0);
          isConst = (flags AND NodeFlags_Const \<noteq> 0)
      in if isLet \<or> isConst then (Inl (unsupported (VariableStatement flags declarations)), st)
         else (case execDeclarations declarations st of
                 (Inl err, st') \<Rightarrow> (Inl err, st')
               | (Inr (Some result), st') \<Rightarrow> (Inr result, st')
               | (Inr None, st') \<Rightarrow> (Inr emptyResult, st')))"
| "execNode (CallExpression callee arguments) st =
     (case execNode callee st of
        (Inl err, st1) \<Rightarrow> (Inl err, st1)
      | (Inr expression, st1) \<Rightarrow>
          (case (exception expression, val expression) of
             (None, Some calleeValue) \<Rightarrow>
               (case execArguments arguments [] st1 of
                  (Inl err, st2) \<Rightarrow> (Inl err, st2)
                | (Inr (Inl result), st2) \<Rightarrow> (Inr result, st2)
                | (Inr (Inr args), st2) \<Rightarrow>
                    (case applyToValue calleeValue
                            (callCallback (handlers st2) (CallExpression callee arguments) args)
                            (sideEffects st2) of
                       (Inl err, effects) \<Rightarrow> (Inl err, st2\<lparr>sideEffects := effects\<rparr>)
                     | (Inr v, effects) \<Rightarrow>
                         (Inr (valueResult v), st2\<lparr>sideEffects := effects\<rparr>)))
           | _ \<Rightarrow> (Inr expression, st1)))"
| "execNode (ExpressionStatement expression) st = execNode expression st"
| "execNode (BinaryExpression left operator right) st =
     (if operator = FirstAssignment then
        (case left of
           Identifier text \<Rightarrow>
             (let ident = escapeLeadingUnderscores text
              in if lookupVar (scope st) ident = None
                 then (Inr (exceptionResult (Value [CUndefined])), st)
                 else (case execNode right st of
                         (Inl err, st') \<Rightarrow> (Inl err, st')
                       | (Inr result, st') \<Rightarrow>
                           (case (exception result, val result) of
                              (None, Some v) \<Rightarrow>
                                (Inr result, st'\<lparr>scope := setVar (scope st') ident v\<rparr>)
                            | _ \<Rightarrow> (Inr result, st'))))
         | _ \<Rightarrow> (Inl (unsupported left), st))
      else (Inl (unsupported (BinaryExpression left operator right)), st))"
| "execNode (PropertyAccessExpression receiver name) st =
     (case execNode receiver st of
        (Inl err, st1) \<Rightarrow> (Inl err, st1)
      | (Inr expression, st1) \<Rightarrow>
          (case (exception expression, val expression) of
             (None, Some receiverValue) \<Rightarrow>
               (case applyToValue receiverValue
                       (propertyCallback (PropertyAccessExpression receiver name)
                          (escapeLeadingUnderscores name))
                       () of
                  (Inl err, _) \<Rightarrow> (Inl err, st1)
                | (Inr v, _) \<Rightarrow> (Inr (valueResult v), st1))
           | _ \<Rightarrow> (Inr expression, st1)))"
| "execNode (NumericLiteral n) st = (Inr (valueResult (Value [CNumber (Some n)])), st)"
| "execNode (Identifier text) st =
     (if text = ''undefined'' then (Inr (valueResult (Value [CUndefined])), st)
      else (case lookupVar (scope st) text of
              None \<Rightarrow> (Inr (exceptionResult (Value [CUndefined])), st)
            | Some v \<Rightarrow> (Inr \<lparr>val = Some v, exception = None, identifierName = Some text\<rparr>, st)))"
| "execNode NullKeyword st = (Inr (valueResult (Value [CNull])), st)"
| "execNode TrueKeyword st = (Inr (valueResult (Value [CBoolean (Some True)])), st)"
| "execNode FalseKeyword st = (Inr (valueResult (Value [CBoolean (Some False)])), st)"
| "execNode (BindingNameNode b) st = (Inl (unsupported (BindingNameNode b)), st)"
| "execNode (OtherNode k) st = (Inl (unsupported (OtherNode k)), st)"
| "execStatements [] st = (Inr (), st)"
| "execStatements (statement # rest) st =
     (case execNode statement st of
        (Inl err, st') \<Rightarrow> (Inl err, st')
      | (Inr result, st') \<Rightarrow>
          if exception result \<noteq> None then (Inr (), st') else execStatements rest st')"
| "execDeclarations [] st = (Inr None, st)"
| "execDeclarations (VariableDeclaration name initializer # rest) st =
     (case name of
        BindingIdentifier text \<Rightarrow>
          (case initializer of
             Some init \<Rightarrow>
               (case execNode init st of
                  (Inl err, st') \<Rightarrow> (Inl err, st')
                | (Inr result, st') \<Rightarrow>
                    if exception result \<noteq> None then (Inr (Some result), st')
                    else execDeclarations rest
                           (st'\<lparr>scope := bindingsSet (scope st') (escapeLeadingUnderscores text)
                                   (case val result of
                                      Some v \<Rightarrow> v
                                    | None \<Rightarrow> Value [CUndefined])\<rparr>))
           | None \<Rightarrow>
               execDeclarations rest
                 (st\<lparr>scope := bindingsSet (scope st) (escapeLeadingUnderscores text)
                         (Value [CUndefined])\<rparr>))
      | _ \<Rightarrow> (Inl (CompileError ''destructuring is not supported'' (Some (BindingNameNode name))), st))"
| "execArguments [] args st = (Inr (Inr args), st)"
| "execArguments (arg # rest) args st =
     (case execNode arg st of
        (Inl err, st') \<Rightarrow> (Inl err, st')
      | (Inr result, st') \<Rightarrow>
          (case (exception result, val result) of
             (None, Some v) \<Rightarrow> execArguments rest (args @ [v]) st'
           | _ \<Rightarrow> (Inr (Inl result), st')))"

section \<open>The driver: compile\<close>

definition createGlobalScope :: Scope where
  "createGlobalScope =
     Scope None
       [''console'' \<mapsto>
          Value [CObject (Some (0,
            [(''log'', Value [CFunction (Some True) (Some ConsoleLog) None])]))]]"

definition addDiagnostic :: "Diagnostic list \<Rightarrow> string \<Rightarrow> Node option \<Rightarrow> Diagnostic list" where
  "addDiagnostic diagnostics msg n =
     diagnostics @ [\<lparr>category = Error, code = ''Z'', messageText = msg, spanOf = n\<rparr>]"

text \<open>
  The \<open>try\<close> block of \<open>compile\<close>, from a given state: the diagnostics, and the state
  the run ends in. \<open>compile\<close> starts it on the tree of the
  source text, in the fresh global scope, and returns the diagnostics.
\<close>

definition runFrom :: "State \<Rightarrow> Node \<Rightarrow> Diagnostic list \<times> State" where
  "runFrom st sourceFile =
     (case execNode sourceFile st of
        (Inl err, st') \<Rightarrow> (addDiagnostic [] (message err) (node err), st')
      | (Inr _, st') \<Rightarrow> ([], st'))"

text \<open>
  The state \<open>compile\<close> starts in. The global scope holds the one handler reference
  \<open>ConsoleLog\<close>, which stands for \<open>consoleLogHandler\<close>; no other reference occurs in a
  run from this state, and each stands for the same closure.
\<close>

definition initialState :: State where
  "initialState =
     \<lparr>scope = createGlobalScope, sideEffects = [], handlers = (\<lambda>_. consoleLogHandler)\<rparr>"

definition compile :: "Node \<Rightarrow> Diagnostic list" where
  "compile sourceFile = fst (runFrom initialState sourceFile)"

section \<open>Notions used to state the properties\<close>

text \<open>
  The state after a sequence of statements when every one of them returned a result
  without an exception, so that the loop of the source file ran through; \<open>None\<close> when a
  statement threw or broke the loop.
\<close>

fun statementsPass :: "Node list \<Rightarrow> State \<Rightarrow> State option" where
  "statementsPass [] st = Some st"
| "statementsPass (statement # rest) st =
     (case execNode statement st of
        (Inl err, st') \<Rightarrow> None
      | (Inr result, st') \<Rightarrow> if exception result = None then statementsPass rest st' else None)"

text \<open>The binding maps of a scope chain, from the scope itself to the root.\<close>

fun chain :: "Scope \<Rightarrow> (string \<rightharpoonup> Value) list" where
  "chain (Scope None b) = [b]"
| "chain (Scope (Some p) b) = b # chain p"

text \<open>
  The entries that the callback of a call with the arguments \<open>args\<close> pushes to
  \<open>sideEffects\<close> at a constraint: one at a Function constraint with a handler whose
  \<open>hasSideEffects\<close> is true, none otherwise.
\<close>

fun recorded :: "Value list \<Rightarrow> ValueConstraint \<Rightarrow> Value list list" where
  "recorded args (CFunction (Some True) (Some h) fnode) = [args]"
| "recorded args _ = []"

text \<open>
  The join seen from one slot. \<open>addResult\<close> touches the slot of the type of the result
  and no other: \<open>bucketAdd\<close> is what it makes of that slot, \<open>bucketOut\<close> what the
  slot gives at the rebuild. A slot that the join can reach at type \<open>t\<close> is a
  \<open>goodBucket\<close>: its constraints have type \<open>t\<close>, which is not \<open>ANY\<close>, and adding
  them one by one to an empty slot gives the slot again.
\<close>

definition bucketAdd :: "Bucket option \<Rightarrow> ValueConstraint \<Rightarrow> Bucket option" where
  "bucketAdd b c = addResult (\<lambda>_. b) c (type_of c)"

definition bucketOut :: "ValueType \<Rightarrow> Bucket option \<Rightarrow> ValueConstraint list" where
  "bucketOut t b = slotConstraints (\<lambda>_. b) t"

definition goodBucket :: "ValueType \<Rightarrow> Bucket option \<Rightarrow> bool" where
  "goodBucket t b \<longleftrightarrow>
     (case b of
        None \<Rightarrow> True
      | Some Generalized \<Rightarrow> (\<exists>g. generic t = [g] \<and> type_of g = t) \<and> t \<noteq> ANY
      | Some (Specifics xs) \<Rightarrow>
          (\<forall>c\<in>set xs. type_of c = t) \<and> t \<noteq> ANY
          \<and> foldl bucketAdd None xs = Some (Specifics xs))"

section \<open>Evaluating the model\<close>

lemmas join_defs =
  applyToValue_def identityCallback_def addResult_def sameConstraint_def keysLength_def
  getField_def rebuild_def valueTypes_def slotConstraints_def

lemmas exec_defs =
  callCallback_def propertyCallback_def escapeLeadingUnderscores_def createGlobalScope_def
  initialState_def runFrom_def compile_def addDiagnostic_def valueResult_def emptyResult_def
  exceptionResult_def unsupported_def NodeFlags_Let_def NodeFlags_Const_def bindingsSet_def
  consoleLogHandler_def

section \<open>The join\<close>

lemma type_of_ANY: "type_of c = ANY \<longleftrightarrow> c = CAny"
  by (cases c) simp_all

lemma addResults_any: "CAny \<in> set results \<Longrightarrow> addResults tbl results = Inl CAny"
proof (induction results arbitrary: tbl)
  case Nil
  then show ?case by simp
next
  case (Cons r rs)
  show ?case
  proof (cases "r = CAny")
    case True
    then show ?thesis by simp
  next
    case False
    with Cons.prems have "CAny \<in> set rs" by simp
    with Cons.IH False show ?thesis by (simp add: type_of_ANY)
  qed
qed

lemma applyLoop_append:
  "applyLoop callback tbl (xs @ ys) s =
     (case applyLoop callback tbl xs s of
        (Inr (Inr tbl'), s') \<Rightarrow> applyLoop callback tbl' ys s'
      | other \<Rightarrow> other)"
  by (induction xs arbitrary: tbl s) (auto split: prod.splits sum.splits)

text \<open>
  C1. The claim: a payload-free constraint sets the bucket of its type to generalized
  whether or not a constraint of the type was seen before, and the specifics of the type
  that come later in the join are dropped. The code does so only when the type already has
  a bucket: a payload-free constraint that is the first of its type is recorded as the one
  element of an array, and a later specific constraint is appended to it. Here the join
  with the identity transform of \<open>[{type: NUMBER}, {type: NUMBER, value: 1}]\<close> returns
  both constraints.
\<close>

theorem generic_first_keeps_later_specific:
  "applyToValue (Value [CNumber None, CNumber (Some (Finite 1))])
     (identityCallback :: (CompileError, unit) Callback) ()
     = (Inr (Value [CNumber None, CNumber (Some (Finite 1))]), ())"
  by (simp add: join_defs)

text \<open>
  C4. The claim: the join with the identity transform returns the Value with duplicates
  removed and the specifics after a generalization dropped, and is idempotent. On
  \<open>[{type: BOOLEAN}, {type: BOOLEAN, value: true}, {type: BOOLEAN, value: true}]\<close> the
  code removes the duplicate and keeps the specific that follows the payload-free
  constraint (the defect of C1: the payload-free constraint is the first of its type).
\<close>

theorem identity_join_keeps_specific_after_generic:
  "applyToValue (Value [CBoolean None, CBoolean (Some True), CBoolean (Some True)])
     (identityCallback :: (CompileError, unit) Callback) ()
     = (Inr (Value [CBoolean None, CBoolean (Some True)]), ())"
  by (simp add: join_defs)

text \<open>
  Where the type already has an array of constraints, a payload-free constraint does set
  the slot to generalized, and a generalized slot takes no further constraint.
\<close>

lemma payload_free_generalizes_existing_bucket:
  "tbl (type_of c) = Some (Specifics cs) \<Longrightarrow> entries c = [] \<Longrightarrow>
   addResult tbl c = tbl(type_of c \<mapsto> Generalized)"
  by (simp add: addResult_def)

lemma generalized_bucket_drops:
  "tbl (type_of c) = Some Generalized \<Longrightarrow> addResult tbl c = tbl"
  by (simp add: addResult_def)

subsection \<open>The identity join is idempotent\<close>

lemma addResult_apply:
  "addResult tbl c t = (if t = type_of c then bucketAdd (tbl t) c else tbl t)"
  by (auto simp: addResult_def bucketAdd_def split: option.splits Bucket.splits)

lemma addResult_fun:
  "addResult tbl c = (\<lambda>t. if t = type_of c then bucketAdd (tbl t) c else tbl t)"
  by (rule ext) (simp add: addResult_apply)

lemma slotConstraints_bucketOut: "slotConstraints tbl t = bucketOut t (tbl t)"
  by (simp add: slotConstraints_def bucketOut_def)

lemma applyLoop_identity:
  "applyLoop identityCallback tbl cs s = (Inr (addResults tbl cs), s)"
  by (induction cs arbitrary: tbl) (auto simp: identityCallback_def split: sum.splits)

text \<open>Without Any, the slot of a type after the join depends on the constraints of that type alone.\<close>

lemma addResults_buckets:
  "CAny \<notin> set cs \<Longrightarrow>
   addResults tbl cs = Inr (\<lambda>t. foldl bucketAdd (tbl t) (filter (\<lambda>c. type_of c = t) cs))"
proof (induction cs arbitrary: tbl)
  case Nil
  then show ?case by simp
next
  case (Cons c cs)
  then have "c \<noteq> CAny" "CAny \<notin> set cs" by auto
  then show ?case
    using Cons.IH [of "addResult tbl c"]
    by (auto simp: type_of_ANY addResult_fun fun_eq_iff)
qed

lemma generic_type_of: "c \<noteq> CAny \<Longrightarrow> \<exists>g. generic (type_of c) = [g] \<and> type_of g = type_of c"
  by (cases c) simp_all

lemma bucketAdd_None: "bucketAdd None c = Some (Specifics [c])"
  by (simp add: bucketAdd_def addResult_def)

lemma goodBucket_add:
  assumes "goodBucket t b" "type_of c = t" "c \<noteq> CAny"
  shows "goodBucket t (bucketAdd b c)"
proof (cases b)
  case None
  have "t \<noteq> ANY" using assms(2,3) type_of_ANY by blast
  then show ?thesis using None assms(2) by (simp add: goodBucket_def bucketAdd_None)
next
  case (Some bk)
  show ?thesis
  proof (cases bk)
    case Generalized
    then show ?thesis
      using assms Some by (simp add: goodBucket_def bucketAdd_def addResult_def)
  next
    case (Specifics xs)
    have st: "foldl bucketAdd None xs = Some (Specifics xs)" "\<forall>c\<in>set xs. type_of c = t"
      "t \<noteq> ANY"
      using assms(1) Some Specifics by (simp_all add: goodBucket_def)
    have "foldl bucketAdd None (xs @ [c]) = bucketAdd (Some (Specifics xs)) c"
      using st(1) by simp
    then show ?thesis
      using assms st Some Specifics generic_type_of [OF assms(3)]
      by (auto simp: goodBucket_def bucketAdd_def addResult_def)
  qed
qed

lemma goodBucket_foldl:
  "goodBucket t b \<Longrightarrow> \<forall>c\<in>set cs. type_of c = t \<and> c \<noteq> CAny \<Longrightarrow>
   goodBucket t (foldl bucketAdd b cs)"
  by (induction cs arbitrary: b) (simp_all add: goodBucket_add)

lemma bucketOut_replay:
  "goodBucket t b \<Longrightarrow> bucketOut t (foldl bucketAdd None (bucketOut t b)) = bucketOut t b"
  by (auto simp: goodBucket_def bucketOut_def slotConstraints_def bucketAdd_None
           split: option.splits Bucket.splits)

lemma bucketOut_types:
  "goodBucket t b \<Longrightarrow> c \<in> set (bucketOut t b) \<Longrightarrow> type_of c = t \<and> t \<noteq> ANY"
  by (auto simp: goodBucket_def bucketOut_def slotConstraints_def
           split: option.splits Bucket.splits)

lemma filter_other_type:
  "\<forall>c\<in>set xs. type_of c = t' \<Longrightarrow>
   filter (\<lambda>c. type_of c = t) xs = (if t = t' then xs else [])"
  by (induction xs) auto

lemma filter_rebuild:
  assumes "\<And>t. goodBucket t (tbl t)"
  shows "filter (\<lambda>c. type_of c = t) (constraints (rebuild tbl)) = bucketOut t (tbl t)"
proof -
  have f: "\<And>t t'. filter (\<lambda>c. type_of c = t) (bucketOut t' (tbl t'))
             = (if t = t' then bucketOut t' (tbl t') else [])"
    using bucketOut_types [OF assms] by (intro filter_other_type) blast
  show ?thesis
    by (cases t) (simp_all add: rebuild_def valueTypes_def slotConstraints_bucketOut f)
qed

lemma rebuild_no_any:
  assumes "\<And>t. goodBucket t (tbl t)"
  shows "CAny \<notin> set (constraints (rebuild tbl))"
proof
  assume "CAny \<in> set (constraints (rebuild tbl))"
  then obtain t where "CAny \<in> set (bucketOut t (tbl t))"
    by (auto simp: rebuild_def slotConstraints_bucketOut)
  from bucketOut_types [OF assms this] show False by auto
qed

text \<open>
  The part of C4 that the code keeps: the join with the identity transform never throws,
  and applied to its own result it returns that result.
\<close>

lemma identity_join_idempotent:
  "\<exists>v'. applyToValue v identityCallback s = (Inr v', s)
       \<and> applyToValue v' identityCallback s = (Inr v', s)"
proof (cases "CAny \<in> set (constraints v)")
  case True
  then have "applyToValue v identityCallback s = (Inr (Value [CAny]), s)"
    by (simp add: applyToValue_def applyLoop_identity addResults_any)
  moreover have "applyToValue (Value [CAny]) identityCallback s = (Inr (Value [CAny]), s)"
    by (simp add: applyToValue_def identityCallback_def)
  ultimately show ?thesis by blast
next
  case False
  define tbl where
    "tbl = (\<lambda>t. foldl bucketAdd None (filter (\<lambda>c. type_of c = t) (constraints v)))"
  have good: "\<And>t. goodBucket t (tbl t)"
    unfolding tbl_def using False
    by (intro goodBucket_foldl) (auto simp: goodBucket_def)
  have 1: "applyToValue v identityCallback s = (Inr (rebuild tbl), s)"
    using addResults_buckets [OF False, of Map.empty]
    by (simp add: applyToValue_def applyLoop_identity tbl_def)
  define tbl2 where "tbl2 = (\<lambda>t. foldl bucketAdd None (bucketOut t (tbl t)))"
  have "addResults Map.empty (constraints (rebuild tbl)) = Inr tbl2"
    using addResults_buckets [OF rebuild_no_any [OF good], of Map.empty]
    by (simp add: filter_rebuild [OF good] tbl2_def)
  moreover have "slotConstraints tbl2 = slotConstraints tbl"
    by (rule ext) (simp add: slotConstraints_bucketOut tbl2_def bucketOut_replay [OF good])
  then have "rebuild tbl2 = rebuild tbl"
    by (simp add: rebuild_def)
  ultimately have 2: "applyToValue (rebuild tbl) identityCallback s = (Inr (rebuild tbl), s)"
    by (simp add: applyToValue_def applyLoop_identity)
  from 1 2 show ?thesis by blast
qed

subsection \<open>Any ends the join\<close>

text \<open>
  C3. When the constraints before \<open>c\<close> have been processed without a throw or an early
  return, whatever table \<open>tbl\<close> they left, and the callback contributes the generic Any
  among its results for \<open>c\<close>, the join returns the Value of exactly that one constraint,
  in the state the callback left at \<open>c\<close>: the callback is not called on the constraints
  after \<open>c\<close>.
\<close>

theorem any_result_short_circuits:
  assumes "applyLoop callback Map.empty pre s = (Inr (Inr tbl), s1)"
    and "callback c s1 = (Inr results, s2)"
    and "CAny \<in> set results"
  shows "applyToValue (Value (pre @ c # post)) callback s = (Inr (Value [CAny]), s2)"
  using assms by (simp add: applyToValue_def applyLoop_append addResults_any)

text \<open>
  At the receiver \<open>[{props: {a: null}}, {type: OBJECT}, {type: NUMBER}]\<close> of a property
  access \<open>o.a\<close>: the second constraint contributes Any, and the third, on which the
  callback would throw, is never reached.
\<close>

theorem any_result_short_circuits_witness:
  "applyToValue
     (Value ([CObject (Some (0, [(''a'', Value [CNull])]))] @ CObject None # [CNumber None]))
     (propertyCallback (Identifier ''o'') ''a'') () = (Inr (Value [CAny]), ())"
proof -
  have 1: "applyLoop (propertyCallback (Identifier ''o'') ''a'') Map.empty
             [CObject (Some (0, [(''a'', Value [CNull])]))] ()
           = (Inr (Inr (addResult Map.empty CNull)), ())"
    by (simp add: propertyCallback_def)
  have 2: "propertyCallback (Identifier ''o'') ''a'' (CObject None) () = (Inr [CAny], ())"
    by (simp add: propertyCallback_def)
  show ?thesis using any_result_short_circuits [OF 1 2] by simp
qed

text \<open>
  For a transform that neither throws nor touches the state, as the identity does: if Any
  is among the results of the transform over the constraints of the Value, the join
  returns the Value of that one constraint.
\<close>

lemma any_result_of_pure_transform:
  assumes "CAny \<in> set (concat (map f cs))"
  shows "applyToValue (Value cs) (\<lambda>c s. (Inr (f c), s)) s = (Inr (Value [CAny]), s)"
proof -
  have loop: "applyLoop (\<lambda>c s. (Inr (f c), s)) tbl cs s = (Inr (Inl CAny), s)" for tbl
    using assms
  proof (induction cs arbitrary: tbl)
    case Nil
    then show ?case by simp
  next
    case (Cons c cs)
    show ?case
    proof (cases "CAny \<in> set (f c)")
      case True
      then show ?thesis by (simp add: addResults_any)
    next
      case False
      with Cons.prems have "CAny \<in> set (concat (map f cs))" by simp
      then show ?thesis
        using Cons.IH addResults_buckets [OF False, of tbl] by simp
    qed
  qed
  show ?thesis by (simp add: applyToValue_def loop [of Map.empty])
qed

section \<open>The evaluator\<close>



text \<open>
  C6. The tree of \<open>console.log(1);\<close> run in the fresh global scope: no diagnostic, one
  recorded side effect whose argument list is the one Value \<open>[{type: NUMBER, value: 1}]\<close>,
  and the result of the call is the Value \<open>[{type: UNDEFINED}]\<close>; the handler returns it
  whatever its arguments.
\<close>

theorem console_log_1:
  "compile (SourceFile [ExpressionStatement
      (CallExpression (PropertyAccessExpression (Identifier ''console'') ''log'')
         [NumericLiteral (Finite 1)])]) = []
   \<and> runFrom initialState (SourceFile [ExpressionStatement
        (CallExpression (PropertyAccessExpression (Identifier ''console'') ''log'')
           [NumericLiteral (Finite 1)])])
       = ([], initialState\<lparr>sideEffects := [[Value [CNumber (Some (Finite 1))]]]\<rparr>)
   \<and> execNode (CallExpression (PropertyAccessExpression (Identifier ''console'') ''log'')
         [NumericLiteral (Finite 1)]) initialState
       = (Inr (valueResult (Value [CUndefined])),
          initialState\<lparr>sideEffects := [[Value [CNumber (Some (Finite 1))]]]\<rparr>)
   \<and> handlers initialState ConsoleLog args = Inr (Value [CUndefined])"
  by (simp add: join_defs exec_defs)








text \<open>
  C10, as the claim states it, fails: a side-effecting Function constraint with a handler
  ordered before a constraint that is not a Function does not make the call throw when a
  constraint between them contributes Any. For the callee
  \<open>[log, {type: FUNCTION}, {type: NUMBER}]\<close> of \<open>f();\<close> the entry is recorded, the second
  constraint contributes Any, the join returns, and the run ends with no diagnostic.
\<close>

theorem side_effect_then_failure_counterexample:
  "runFrom
     \<lparr>scope = Scope None
        [''f'' \<mapsto> Value [CFunction (Some True) (Some ConsoleLog) None,
                          CFunction None None None, CNumber None]],
      sideEffects = [], handlers = (\<lambda>_. consoleLogHandler)\<rparr>
     (SourceFile [ExpressionStatement (CallExpression (Identifier ''f'') [])])
   = ([],
      \<lparr>scope = Scope None
        [''f'' \<mapsto> Value [CFunction (Some True) (Some ConsoleLog) None,
                          CFunction None None None, CNumber None]],
       sideEffects = [[]], handlers = (\<lambda>_. consoleLogHandler)\<rparr>)"
  by (simp add: join_defs exec_defs)

text \<open>
  The same happens when the side-effecting handler itself returns a Value with Any: for
  the callee \<open>[{type: FUNCTION, hasSideEffects: true, handler}, {type: NUMBER}]\<close> the entry
  is recorded, the join returns at the result of the handler, and nothing is thrown.
\<close>

lemma any_returning_handler_ends_join:
  "runFrom
     \<lparr>scope = Scope None
        [''f'' \<mapsto> Value [CFunction (Some True) (Some 1) None, CNumber None]],
      sideEffects = [], handlers = (\<lambda>_ args. Inr (Value [CAny]))\<rparr>
     (SourceFile [ExpressionStatement (CallExpression (Identifier ''f'') [])])
   = ([],
      \<lparr>scope = Scope None
        [''f'' \<mapsto> Value [CFunction (Some True) (Some 1) None, CNumber None]],
       sideEffects = [[]], handlers = (\<lambda>_ args. Inr (Value [CAny]))\<rparr>)"
  by (simp add: join_defs exec_defs)

text \<open>
  The loop over Function constraints whose handlers return, on the arguments of the call,
  a Value without Any: it reaches its end, with the entries of the side-effecting ones
  recorded in order.
\<close>

lemma applyLoop_handled:
  "\<forall>f\<in>set fs. \<exists>se h nd v. f = CFunction se (Some h) nd \<and> hs h args = Inr v
      \<and> CAny \<notin> set (constraints v) \<Longrightarrow>
   \<exists>tbl'. applyLoop (callCallback hs n args) tbl fs effects
           = (Inr (Inr tbl'), effects @ concat (map (recorded args) fs))"
proof (induction fs arbitrary: tbl effects)
  case Nil
  then show ?case by simp
next
  case (Cons f fs)
  then obtain se h nd v where f: "f = CFunction se (Some h) nd" "hs h args = Inr v"
    "CAny \<notin> set (constraints v)"
    by auto
  obtain tbl1 where t: "addResults tbl (constraints v) = Inr tbl1"
    using addResults_buckets [OF f(3)] by blast
  have rec: "(if se = Some True then effects @ [args] else effects) = effects @ recorded args f"
    using f(1) by (cases se) auto
  from Cons.prems have "\<forall>f\<in>set fs. \<exists>se h nd v. f = CFunction se (Some h) nd
      \<and> hs h args = Inr v \<and> CAny \<notin> set (constraints v)"
    by simp
  from Cons.IH [OF this, of tbl1 "effects @ recorded args f"]
  obtain tbl' where "applyLoop (callCallback hs n args) tbl1 fs (effects @ recorded args f)
       = (Inr (Inr tbl'), (effects @ recorded args f) @ concat (map (recorded args) fs))"
    by blast
  then have "applyLoop (callCallback hs n args) tbl (f # fs) effects
       = (Inr (Inr tbl'), effects @ concat (map (recorded args) (f # fs)))"
    using f(1,2) t rec by (simp add: callCallback_def)
  then show ?case by blast
qed

text \<open>
  The entry of a side-effecting constraint is pushed before its handler runs: it is in the
  list also when the handler itself throws.
\<close>

lemma throwing_handler_keeps_side_effect:
  "hs h args = Inl err \<Longrightarrow>
   callCallback hs n args (CFunction (Some True) (Some h) fnode) effects
     = (Inl err, effects @ [args])"
  by (simp add: callCallback_def)

lemma callCallback_not_function:
  "type_of c \<noteq> FUNCTION \<Longrightarrow>
   callCallback hs n args c effects
     = (Inl (CompileError ''Called value may not be a function'' (Some n)), effects)"
  by (cases c) (simp_all add: callCallback_def)

text \<open>
  C10, amended. Let the callee of a call evaluate to a Value in which every constraint
  before the first one that is not a Function is a Function constraint with a handler that
  returns, on the arguments \<open>args\<close> of the call, a Value without Any (so that none of them
  throws or ends the join), one of these constraints being side-effecting. Then the call
  throws \<open>Called value may not be a function\<close>, and the state it throws in holds the
  entries recorded for the side-effecting constraints before the throw; a run of the
  statement ends with exactly that one diagnostic and a list of side effects that
  contains \<open>args\<close>.
\<close>

theorem side_effects_survive_failure:
  assumes "execNode callee st = (Inr expression, st1)"
    and "exception expression = None"
    and "val expression = Some (Value (fs @ c # rest))"
    and "execArguments arguments [] st1 = (Inr (Inr args), st2)"
    and "\<forall>f\<in>set fs. \<exists>se h nd v. f = CFunction se (Some h) nd
           \<and> handlers st2 h args = Inr v \<and> CAny \<notin> set (constraints v)"
    and "CFunction (Some True) (Some h0) nd0 \<in> set fs"
    and "type_of c \<noteq> FUNCTION"
  shows "execNode (CallExpression callee arguments) st
           = (Inl (CompileError ''Called value may not be a function''
                     (Some (CallExpression callee arguments))),
              st2\<lparr>sideEffects := sideEffects st2 @ concat (map (recorded args) fs)\<rparr>)
      \<and> runFrom st (SourceFile [ExpressionStatement (CallExpression callee arguments)])
           = ([\<lparr>category = Error, code = ''Z'',
                messageText = ''Called value may not be a function'',
                spanOf = Some (CallExpression callee arguments)\<rparr>],
              st2\<lparr>sideEffects := sideEffects st2 @ concat (map (recorded args) fs)\<rparr>)
      \<and> args \<in> set (concat (map (recorded args) fs))"
proof -
  let ?n = "CallExpression callee arguments"
  obtain tbl' where l:
    "applyLoop (callCallback (handlers st2) ?n args) Map.empty fs (sideEffects st2)
       = (Inr (Inr tbl'), sideEffects st2 @ concat (map (recorded args) fs))"
    using applyLoop_handled [where hs = "handlers st2" and args = args and fs = fs, OF assms(5)]
    by blast
  have "applyToValue (Value (fs @ c # rest)) (callCallback (handlers st2) ?n args)
          (sideEffects st2)
     = (Inl (CompileError ''Called value may not be a function'' (Some ?n)),
        sideEffects st2 @ concat (map (recorded args) fs))"
    using l callCallback_not_function [OF assms(7)]
    by (simp add: applyToValue_def applyLoop_append)
  then have 1: "execNode ?n st
       = (Inl (CompileError ''Called value may not be a function'' (Some ?n)),
          st2\<lparr>sideEffects := sideEffects st2 @ concat (map (recorded args) fs)\<rparr>)"
    using assms(1-4) by simp
  have "args \<in> set (recorded args (CFunction (Some True) (Some h0) nd0))" by simp
  then have 2: "args \<in> set (concat (map (recorded args) fs))"
    using assms(6) by (simp only: set_concat set_map) blast
  show ?thesis using 1 2 by (simp add: runFrom_def addDiagnostic_def)
qed

text \<open>
  The statement \<open>f(1);\<close> in a scope that binds \<open>f\<close> to \<open>[log, {type: NUMBER}]\<close>: one
  diagnostic, and the side effect of the first constraint is in the list.
\<close>

theorem side_effects_survive_failure_witness:
  "runFrom
     \<lparr>scope = Scope None
        [''f'' \<mapsto> Value [CFunction (Some True) (Some ConsoleLog) None, CNumber None]],
      sideEffects = [], handlers = (\<lambda>_. consoleLogHandler)\<rparr>
     (SourceFile [ExpressionStatement
        (CallExpression (Identifier ''f'') [NumericLiteral (Finite 1)])])
   = ([\<lparr>category = Error, code = ''Z'', messageText = ''Called value may not be a function'',
        spanOf = Some (CallExpression (Identifier ''f'') [NumericLiteral (Finite 1)])\<rparr>],
      \<lparr>scope = Scope None
        [''f'' \<mapsto> Value [CFunction (Some True) (Some ConsoleLog) None, CNumber None]],
       sideEffects = [[Value [CNumber (Some (Finite 1))]]],
       handlers = (\<lambda>_. consoleLogHandler)\<rparr>)"
proof -
  let ?v = "Value ([CFunction (Some True) (Some ConsoleLog) None] @ CNumber None # [])"
  let ?st = "\<lparr>scope = Scope None [''f'' \<mapsto> ?v], sideEffects = [],
              handlers = (\<lambda>_. consoleLogHandler)\<rparr>"
  let ?e = "\<lparr>val = Some ?v, exception = None, identifierName = Some ''f''\<rparr>"
  let ?args = "[Value [CNumber (Some (Finite 1))]]"
  have 1: "execNode (Identifier ''f'') ?st = (Inr ?e, ?st)" by simp
  have 2: "exception ?e = None" by simp
  have 3: "val ?e = Some ?v" by simp
  have 4: "execArguments [NumericLiteral (Finite 1)] [] ?st = (Inr (Inr ?args), ?st)"
    by (simp add: valueResult_def)
  have 5: "\<forall>f\<in>set [CFunction (Some True) (Some ConsoleLog) None].
      \<exists>se h nd v. f = CFunction se (Some h) nd \<and> handlers ?st h ?args = Inr v
        \<and> CAny \<notin> set (constraints v)"
    by (simp add: consoleLogHandler_def)
  have 6: "CFunction (Some True) (Some ConsoleLog) None
      \<in> set [CFunction (Some True) (Some ConsoleLog) None]"
    by simp
  have 7: "type_of (CNumber None) \<noteq> FUNCTION" by simp
  show ?thesis using side_effects_survive_failure [OF 1 2 3 4 5 6 7] by simp
qed

section \<open>The scope chain\<close>

text \<open>
  C8. \<open>setVar\<close> rebinds the name in one scope of the chain, at a position \<open>k\<close>: every
  scope nearer to the calling scope has no binding for the name, and the scope at \<open>k\<close> is
  the root or has one. The chain keeps its length, and the binding map of every other scope
  is the one it was, so no scope gains a binding for the name but the root when no scope
  had one. With \<open>x\<close> bound in the root alone, \<open>setVar\<close> from the grandchild rebinds it in
  the root and leaves the two scopes below without \<open>x\<close>.
\<close>

theorem setVar_rebinds_nearest:
  "(\<exists>k<length (chain sc).
      (\<forall>i<k. (chain sc ! i) name = None)
      \<and> (Suc k = length (chain sc) \<or> (chain sc ! k) name \<noteq> None)
      \<and> chain (setVar sc name v) = (chain sc)[k := (chain sc ! k)(name \<mapsto> v)])
   \<and> setVar (Scope (Some (Scope (Some (Scope None [''x'' \<mapsto> v1])) Map.empty)) Map.empty) ''x'' v2
       = Scope (Some (Scope (Some (Scope None [''x'' \<mapsto> v2])) Map.empty)) Map.empty"
proof
  show "\<exists>k<length (chain sc).
      (\<forall>i<k. (chain sc ! i) name = None)
      \<and> (Suc k = length (chain sc) \<or> (chain sc ! k) name \<noteq> None)
      \<and> chain (setVar sc name v) = (chain sc)[k := (chain sc ! k)(name \<mapsto> v)]"
  proof (induction sc name v rule: setVar.induct)
    case (1 b name v)
    have "0 < length (chain (Scope None b))" by simp
    moreover have "\<forall>i<0. (chain (Scope None b) ! i) name = None" by simp
    moreover have "Suc 0 = length (chain (Scope None b))" by simp
    moreover have "chain (setVar (Scope None b) name v)
        = (chain (Scope None b))[0 := (chain (Scope None b) ! 0)(name \<mapsto> v)]"
      by simp
    ultimately show ?case by blast
  next
    case (2 p b name v)
    let ?sc = "Scope (Some p) b"
    show ?case
    proof (cases "b name = None")
      case True
      from 2 [OF True] obtain k where k: "k < length (chain p)"
        "\<forall>i<k. (chain p ! i) name = None"
        "Suc k = length (chain p) \<or> (chain p ! k) name \<noteq> None"
        "chain (setVar p name v) = (chain p)[k := (chain p ! k)(name \<mapsto> v)]"
        by blast
      have "Suc k < length (chain ?sc)" using k(1) by simp
      moreover have "\<forall>i<Suc k. (chain ?sc ! i) name = None"
        using k(2) True by (auto simp: less_Suc_eq_0_disj)
      moreover have "Suc (Suc k) = length (chain ?sc) \<or> (chain ?sc ! Suc k) name \<noteq> None"
        using k(3) by simp
      moreover have "chain (setVar ?sc name v)
          = (chain ?sc)[Suc k := (chain ?sc ! Suc k)(name \<mapsto> v)]"
        using k(4) True by simp
      ultimately show ?thesis by blast
    next
      case False
      have "0 < length (chain ?sc)" by simp
      moreover have "\<forall>i<0. (chain ?sc ! i) name = None" by simp
      moreover have "(chain ?sc ! 0) name \<noteq> None" using False by simp
      moreover have "chain (setVar ?sc name v) = (chain ?sc)[0 := (chain ?sc ! 0)(name \<mapsto> v)]"
        using False by auto
      ultimately show ?thesis by blast
    qed
  qed
next
  show "setVar (Scope (Some (Scope (Some (Scope None [''x'' \<mapsto> v1])) Map.empty)) Map.empty) ''x'' v2
       = Scope (Some (Scope (Some (Scope None [''x'' \<mapsto> v2])) Map.empty)) Map.empty"
    by simp
qed

text \<open>
  The chain of the claim, with the Values of the literals 1 and 2: the chain after
  \<open>setVar\<close> from the grandchild.
\<close>

theorem setVar_rebinds_nearest_witness:
  "chain (setVar
     (Scope (Some (Scope (Some (Scope None [''x'' \<mapsto> Value [CNumber (Some (Finite 1))]]))
        Map.empty)) Map.empty)
     ''x'' (Value [CNumber (Some (Finite 2))]))
   = [Map.empty, Map.empty, [''x'' \<mapsto> Value [CNumber (Some (Finite 2))]]]"
  using setVar_rebinds_nearest
    [of "Scope (Some (Scope (Some (Scope None [''x'' \<mapsto> Value [CNumber (Some (Finite 1))]]))
           Map.empty)) Map.empty"
        "''x''" "Value [CNumber (Some (Finite 2))]"
        "Value [CNumber (Some (Finite 1))]" "Value [CNumber (Some (Finite 2))]"]
  by simp

section \<open>The driver\<close>

lemma statementsPass_append:
  "statementsPass pre st = Some st1 \<Longrightarrow> execStatements (pre @ rest) st = execStatements rest st1"
  by (induction pre arbitrary: st) (auto split: prod.splits sum.splits if_splits)




text \<open>
  A statement whose result carries an exception, after statements that ran through, ends
  the run in the state it left, with no diagnostic, whatever statements follow.
\<close>

lemma exception_stops_run:
  assumes "statementsPass pre st = Some st1"
    and "execNode stmt st1 = (Inr r, st2)"
    and "exception r \<noteq> None"
  shows "runFrom st (SourceFile (pre @ stmt # post)) = ([], st2)"
  using assms by (simp add: runFrom_def statementsPass_append)



end
